theory Spec2Isabelle
  imports Main "HOL-Library.Word"
begin

section \<open>The test Vault fixture of testutil/vault.go\<close>

text \<open>
  The fixture launches an external \<open>vault\<close> process, waits for it to answer its status
  endpoint and tears it down again. Everything the Go code obtains from outside (ports from
  freeport, tokens from uuid, the outcome of starting the process, of the select statements
  and of the status queries, the random sample) is an explicit input of the model, and
  everything it does to the outside is an event of a trace, in program order.
\<close>

subsection \<open>Errors, durations, formatting\<close>

text \<open>
  Go \<open>error\<close> values. \<open>ErrProcessDone\<close> is \<open>os.ErrProcessDone\<close>; \<open>ErrWrap\<close> is an
  error that wraps another one (\<open>Unwrap\<close>), which \<open>errors.Is\<close> looks through. A nil
  error is \<open>None\<close> of \<open>gerror option\<close>.
\<close>

datatype gerror = ErrProcessDone | ErrMsg string | ErrWrap string gerror

fun errors_Is :: "gerror \<Rightarrow> gerror \<Rightarrow> bool" where
  "errors_Is (ErrWrap s e) target = (ErrWrap s e = target \<or> errors_Is e target)"
| "errors_Is e target = (e = target)"

text \<open>\<open>time.Duration\<close> is a signed 64-bit count of nanoseconds.\<close>

type_synonym duration = "64 word"

definition Millisecond :: duration where
  "Millisecond = 1000000"

definition Second :: duration where
  "Second = 1000000000"

text \<open>
  \<open>time.Duration(500*TestMultiplier()) * time.Millisecond\<close> (lines 107 and 204).
  \<open>TestMultiplier\<close> is declared outside this file; its value is the parameter \<open>mult\<close>.
\<close>

definition start_timeout :: "64 word \<Rightarrow> duration" where
  "start_timeout mult = (500 * mult) * Millisecond"

text \<open>
  \<open>rand.Int31n(n)\<close> of math/rand: a value in \<open>[0, n)\<close>, the accepted sample \<open>raw\<close>
  reduced modulo \<open>n\<close>.
\<close>

definition Int31n :: "nat \<Rightarrow> nat \<Rightarrow> nat" where
  "Int31n n raw = raw mod n"


text \<open>
  \<open>time.Duration(rand.Int31n(2000)) * time.Millisecond\<close> (lines 113 and 122).
\<close>

definition retry_wait :: "nat \<Rightarrow> duration" where
  "retry_wait raw = word_of_nat (Int31n 2000 raw) * Millisecond"

text \<open>The verb \<open>%d\<close> of \<open>fmt.Sprintf\<close> on an \<open>int\<close>: decimal digits, a minus sign first.\<close>

definition digit :: "nat \<Rightarrow> char" where
  "digit n = ''0123456789'' ! n"

fun digits :: "nat \<Rightarrow> string" where
  "digits n = (if n < 10 then [digit n] else digits (n div 10) @ [digit (n mod 10)])"

definition itoa :: "int \<Rightarrow> string" where
  "itoa i = (if i < 0 then CHR ''-'' # digits (nat (- i)) else digits (nat i))"

subsection \<open>The data of the fixture\<close>

text \<open>
  Where the output of the child process goes: \<open>testlog.NewWriter(t)\<close>, a writer that
  logs each line to the test \<open>t\<close>, or the test binary's own \<open>os.Stdout\<close>/\<open>os.Stderr\<close>.
\<close>

datatype sink = TestLog | OsStdout | OsStderr

datatype process = Proc

text \<open>
  \<open>exec.Cmd\<close>: \<open>Args\<close> holds the command name followed by its arguments. The
  field \<open>Path\<close>, the name as \<open>exec.LookPath\<close> resolves it, is left out.
\<close>

record Cmd =
  Args :: "string list"
  Stdout :: "sink option"
  Stderr :: "sink option"
  Process :: "process option"

definition exec_Command :: "string \<Rightarrow> string list \<Rightarrow> Cmd" where
  "exec_Command name arg =
     \<lparr>Args = name # arg, Stdout = None, Stderr = None, Process = None\<rparr>"

text \<open>The fields of \<open>config.VaultConfig\<close> that the fixture sets.\<close>

record VaultConfig =
  Enabled :: "bool option"
  Token :: string
  Addr :: string

text \<open>The \<open>vapi.Client\<close>: the address it talks to and the token it sends.\<close>

record vapi_Client =
  address :: string
  token :: string

text \<open>\<open>vapi.NewClient(conf)\<close> followed by nothing else: no token yet.\<close>

definition NewClient :: "string \<Rightarrow> vapi_Client" where
  "NewClient conf_Address = \<lparr>address = conf_Address, token = ''''\<rparr>"

definition SetToken :: "string \<Rightarrow> vapi_Client \<Rightarrow> vapi_Client" where
  "SetToken v c = c\<lparr>token := v\<rparr>"

text \<open>A \<open>chan error\<close> of capacity 1; the fixture only ever tests it against nil.\<close>

datatype chan = Chan

record TestVault =
  cmd :: Cmd
  waitCh :: "chan option"
  ports :: "int list"
  Addr :: string
  HTTPAddr :: string
  RootToken :: string
  Config :: VaultConfig
  Client :: vapi_Client

subsection \<open>Events\<close>

text \<open>
  What a task does to the world, in program order. The main task (the test) and a watcher
  goroutine each have their own trace.
\<close>

datatype event =
    MustTake int                \<comment> \<open>\<open>freeport.MustTake(1)\<close> returned this port\<close>
  | Generate string             \<comment> \<open>\<open>uuid.Generate()\<close> returned this token\<close>
  | CmdStart                    \<comment> \<open>\<open>cmd.Start()\<close> was called\<close>
  | CmdWait                     \<comment> \<open>\<open>cmd.Wait()\<close> was called\<close>
  | MakeChan                    \<comment> \<open>\<open>make(chan error, 1)\<close>\<close>
  | Go                          \<comment> \<open>a watcher goroutine was spawned\<close>
  | ChanSend "gerror option"    \<comment> \<open>\<open>waitCh <- err\<close>\<close>
  | Select duration             \<comment> \<open>a select of \<open><-waitCh\<close> against \<open>time.After d\<close>\<close>
  | InitStatus                  \<comment> \<open>one status query\<close>
  | Sleep duration              \<comment> \<open>\<open>time.Sleep d\<close>\<close>
  | Fatalf string gerror        \<comment> \<open>\<open>t.Fatalf(format, err)\<close>\<close>
  | Kill                        \<comment> \<open>\<open>cmd.Process.Kill()\<close>\<close>
  | Errorf string gerror        \<comment> \<open>\<open>t.Errorf(format, err)\<close>\<close>
  | RequireFail string          \<comment> \<open>\<open>require.Fail(t, msg)\<close>\<close>
  | FreeportReturn "int list"   \<comment> \<open>\<open>freeport.Return(ports)\<close>\<close>

text \<open>How a select on the completion channel ends.\<close>

datatype race =
    Received "gerror option"    \<comment> \<open>the channel delivered this value first\<close>
  | TimedOut                    \<comment> \<open>the timer fired first\<close>

subsection \<open>The readiness poller\<close>

text \<open>
  Modelled from the spec: \<open>WaitForResult\<close>, which is called at line 238 and declared
  in another file of the package. The spec (4.4): issue the query in a loop with a fixed
  delay between attempts; a result that is not a success is retried, a success ends the
  loop; an overall deadline bounds the wait, after which the most recent error is handed to
  the error callback. The deadline is the end of the list \<open>rs\<close>: the responses to the
  queries that are issued before it. The result is the number of queries issued and the
  argument of the error callback, if it was called.
\<close>

fun wait_loop ::
  "('r \<Rightarrow> bool \<times> gerror option) \<Rightarrow> gerror option \<Rightarrow> 'r list \<Rightarrow> nat \<times> gerror option option"
where
  "wait_loop test recent [] = (0, Some recent)"
| "wait_loop test recent (r # rs) =
     (case test r of
        (True, err) \<Rightarrow> (1, None)
      | (False, err) \<Rightarrow> (case wait_loop test err rs of (n, cb) \<Rightarrow> (Suc n, cb)))"

definition WaitForResult ::
  "('r \<Rightarrow> bool \<times> gerror option) \<Rightarrow> 'r list \<Rightarrow> nat \<times> gerror option option"
where
  "WaitForResult test rs = wait_loop test None rs"

text \<open>
  The answer of \<open>tv.Client.Sys().InitStatus()\<close>: the flag and the error, as Go returns
  them. The closure of lines 238 to 244 turns it into the poller's result.
\<close>

type_synonym init_status = "bool \<times> gerror option"

definition status_test :: "init_status \<Rightarrow> bool \<times> gerror option" where
  "status_test r =
     (case r of (inited, err) \<Rightarrow> if err \<noteq> None then (False, err) else (inited, None))"

text \<open>
  \<open>waitForAPI\<close> (lines 236 to 248): \<open>waitErr\<close> starts as nil and is assigned by the
  error callback. The result is the number of status queries and \<open>waitErr\<close>.
\<close>

definition waitForAPI :: "init_status list \<Rightarrow> nat \<times> gerror option" where
  "waitForAPI rs =
     (case WaitForResult status_test rs of
        (n, None) \<Rightarrow> (n, None)
      | (n, Some err) \<Rightarrow> (n, err))"

subsection \<open>Building a fixture\<close>

text \<open>The three \<open>fmt.Sprintf\<close> calls of lines 57 to 59 and 146 to 148.\<close>

definition bind_arg :: "int \<Rightarrow> string" where
  "bind_arg port = ''-dev-listen-address=127.0.0.1:'' @ itoa port"

definition http_addr :: "int \<Rightarrow> string" where
  "http_addr port = ''http://127.0.0.1:'' @ itoa port"

definition root_arg :: "string \<Rightarrow> string" where
  "root_arg tok = ''-dev-root-token-id='' @ tok"

text \<open>
  What the world does during one iteration of the retry loop of
  \<open>NewTestVaultFromPath\<close>.
\<close>

record attempt_env =
  take_port :: int                      \<comment> \<open>the port \<open>freeport.MustTake(1)\<close> hands out\<close>
  gen_token :: string                   \<comment> \<open>the token \<open>uuid.Generate()\<close> returns\<close>
  new_client_err :: "gerror option"     \<comment> \<open>the error of \<open>vapi.NewClient\<close>\<close>
  start_err :: "gerror option"          \<comment> \<open>the error of \<open>cmd.Start()\<close>\<close>
  start_race :: race                    \<comment> \<open>how the select of lines 105 to 108 ends\<close>
  status_polls :: "init_status list"    \<comment> \<open>the answers to the status queries\<close>
  rand_raw :: nat                       \<comment> \<open>the sample behind \<open>rand.Int31n\<close>\<close>

text \<open>How one iteration of the loop ends.\<close>

datatype step =
    Continue                  \<comment> \<open>\<open>continue\<close>\<close>
  | Done TestVault            \<comment> \<open>\<open>return tv\<close>\<close>
  | Fatal                     \<comment> \<open>\<open>t.Fatalf\<close> ended the test\<close>

text \<open>
  The body of the loop, lines 54 to 127, for the index \<open>i\<close>. \<open>ps\<close> is the captured
  slice \<open>ports\<close> on entry; the result carries it on exit.
\<close>

definition attempt_body ::
  "string \<Rightarrow> 64 word \<Rightarrow> nat \<Rightarrow> attempt_env \<Rightarrow> int list \<Rightarrow> step \<times> int list \<times> event list"
where
  "attempt_body binary mult i a ps =
    (let port = take_port a;
         ports' = ps @ [port];
         tok = gen_token a;
         bind = bind_arg port;
         http = http_addr port;
         root = root_arg tok;
         cmd0 = (exec_Command binary [''server'', ''-dev'', bind, root])
                  \<lparr>Stdout := Some TestLog, Stderr := Some TestLog\<rparr>;
         ev0 = [MustTake port, Generate tok]
     in case new_client_err a of
          Some err \<Rightarrow> (Fatal, ports', ev0 @ [Fatalf ''failed to build Vault API client: %v'' err])
        | None \<Rightarrow>
           (let client = SetToken tok (NewClient http);
                tv = \<lparr>cmd = cmd0, waitCh = None, ports = ports', Addr = bind,
                      HTTPAddr = http, RootToken = tok,
                      Config = \<lparr>Enabled = Some True, Token = tok, Addr = http\<rparr>,
                      Client = client\<rparr>
            in case start_err a of
                 Some err \<Rightarrow>
                   (Fatal, ports', ev0 @ [CmdStart, Fatalf ''failed to start vault: %v'' err])
               | None \<Rightarrow>
                  (let tv1 = tv\<lparr>cmd := cmd0\<lparr>Process := Some Proc\<rparr>, waitCh := Some Chan\<rparr>;
                       ev1 = ev0 @ [CmdStart, MakeChan, Go, Select (start_timeout mult)];
                       startErr = (case start_race a of Received e \<Rightarrow> e | TimedOut \<Rightarrow> None)
                   in case startErr of
                        Some err \<Rightarrow>
                          (if i = 0
                           then (Fatal, ports', ev1 @ [Fatalf ''failed to start vault: %v'' err])
                           else (Continue, ports', ev1 @ [Sleep (retry_wait (rand_raw a))]))
                      | None \<Rightarrow>
                         (case waitForAPI (status_polls a) of
                            (n, Some err) \<Rightarrow>
                              (if i = 0
                               then (Fatal, ports',
                                     ev1 @ replicate n InitStatus
                                       @ [Fatalf ''failed to start vault: %v'' err])
                               else (Continue, ports',
                                     ev1 @ replicate n InitStatus
                                       @ [Sleep (retry_wait (rand_raw a))]))
                          | (n, None) \<Rightarrow> (Done tv1, ports', ev1 @ replicate n InitStatus)))))"

text \<open>What \<open>NewTestVaultFromPath\<close> gives back.\<close>

datatype ctor_result =
    Returned TestVault        \<comment> \<open>\<open>return tv\<close>, line 127\<close>
  | ReturnedNil               \<comment> \<open>\<open>return nil\<close>, line 130\<close>
  | Aborted                   \<comment> \<open>a \<open>t.Fatalf\<close> ended the test\<close>

text \<open>
  The loop \<open>for i := 10; i >= 0; i--\<close> from the index \<open>i\<close> on. \<open>env i\<close> is what the
  world does during the iteration with index \<open>i\<close>.
\<close>

fun retry_loop ::
  "string \<Rightarrow> 64 word \<Rightarrow> (nat \<Rightarrow> attempt_env) \<Rightarrow> nat \<Rightarrow> int list \<Rightarrow> ctor_result \<times> event list"
where
  "retry_loop binary mult env i ps =
     (case attempt_body binary mult i (env i) ps of
        (Fatal, ps', ev) \<Rightarrow> (Aborted, ev)
      | (Done tv, ps', ev) \<Rightarrow> (Returned tv, ev)
      | (Continue, ps', ev) \<Rightarrow>
          (case i of
             0 \<Rightarrow> (ReturnedNil, ev)
           | Suc j \<Rightarrow> (case retry_loop binary mult env j ps' of (r, ev') \<Rightarrow> (r, ev @ ev'))))"

definition NewTestVaultFromPath ::
  "string \<Rightarrow> 64 word \<Rightarrow> (nat \<Rightarrow> attempt_env) \<Rightarrow> ctor_result \<times> event list"
where
  "NewTestVaultFromPath binary mult env = retry_loop binary mult env 10 []"

definition NewTestVault :: "64 word \<Rightarrow> (nat \<Rightarrow> attempt_env) \<Rightarrow> ctor_result \<times> event list" where
  "NewTestVault mult env = NewTestVaultFromPath ''vault'' mult env"

text \<open>
  \<open>NewTestVaultDelayed\<close> (lines 143 to 181). Of the world it reads the port, the token
  and the error of \<open>vapi.NewClient\<close>. The struct literal of lines 166 to 178 has no
  \<open>ports\<close> and no \<open>waitCh\<close>: both stay nil.
\<close>

definition NewTestVaultDelayed :: "attempt_env \<Rightarrow> ctor_result \<times> event list" where
  "NewTestVaultDelayed a =
    (let port = take_port a;
         tok = gen_token a;
         bind = bind_arg port;
         http = http_addr port;
         root = root_arg tok;
         cmd0 = (exec_Command ''vault'' [''server'', ''-dev'', bind, root])
                  \<lparr>Stdout := Some OsStdout, Stderr := Some OsStderr\<rparr>;
         ev0 = [MustTake port, Generate tok]
     in case new_client_err a of
          Some err \<Rightarrow> (Aborted, ev0 @ [Fatalf ''failed to build Vault API client: %v'' err])
        | None \<Rightarrow>
           (let client = SetToken tok (NewClient http)
            in (Returned \<lparr>cmd = cmd0, waitCh = None, ports = [], Addr = bind,
                          HTTPAddr = http, RootToken = tok,
                          Config = \<lparr>Enabled = Some True, Token = tok, Addr = http\<rparr>,
                          Client = client\<rparr>, ev0)))"

subsection \<open>Start, the watchers, Stop\<close>

text \<open>
  \<open>Start\<close> (lines 185 to 208), the main task's part: the channel, the goroutine, the
  select, the poller. It gives back the fixture, the error it returns and its trace.
\<close>

definition Start ::
  "TestVault \<Rightarrow> 64 word \<Rightarrow> race \<Rightarrow> init_status list \<Rightarrow> TestVault \<times> gerror option \<times> event list"
where
  "Start tv mult r polls =
    (let tv1 = tv\<lparr>waitCh := Some Chan\<rparr>;
         ev = [MakeChan, Go, Select (start_timeout mult)]
     in case r of
          Received err \<Rightarrow> (tv1, err, ev)
        | TimedOut \<Rightarrow>
            (case waitForAPI polls of (n, err) \<Rightarrow> (tv1, err, ev @ replicate n InitStatus)))"

text \<open>
  The goroutine of lines 98 to 101. \<open>wait_res\<close> is what \<open>cmd.Wait()\<close> returns, or
  \<open>None\<close> while the process is still running and the call has not returned.
\<close>

definition watcher_eager :: "gerror option option \<Rightarrow> event list" where
  "watcher_eager wait_res =
     (case wait_res of
        None \<Rightarrow> [CmdWait]
      | Some err \<Rightarrow> [CmdWait, ChanSend err])"

text \<open>
  The goroutine of lines 189 to 198. It starts the process itself, so it is the one that
  sets \<open>cmd.Process\<close>.
\<close>

definition watcher_delayed ::
  "TestVault \<Rightarrow> gerror option \<Rightarrow> gerror option option \<Rightarrow> TestVault \<times> event list"
where
  "watcher_delayed tv start_res wait_res =
     (case start_res of
        Some err \<Rightarrow> (tv, [CmdStart, ChanSend (Some err)])
      | None \<Rightarrow>
          (let tv1 = tv\<lparr>cmd := (cmd tv)\<lparr>Process := Some Proc\<rparr>\<rparr>
           in case wait_res of
                None \<Rightarrow> (tv1, [CmdStart, CmdWait])
              | Some err \<Rightarrow> (tv1, [CmdStart, CmdWait, ChanSend err])))"

text \<open>
  \<open>Stop\<close> (lines 211 to 232). \<open>kill_err\<close> is the error of \<open>Process.Kill()\<close> and
  \<open>r\<close> the outcome of the select of lines 225 to 230. The deferred call of line 212 has
  its argument evaluated there and runs when the function returns, also when
  \<open>require.Fail\<close> ends the test through \<open>FailNow\<close>. \<open>Stop_wait\<close> is the
  bounded wait of lines 224 to 231.
\<close>

definition Stop_wait :: "TestVault \<Rightarrow> race \<Rightarrow> event list" where
  "Stop_wait tv r =
     (if waitCh tv \<noteq> None then
        (case r of
           Received err \<Rightarrow> [Select (1 * Second)]
         | TimedOut \<Rightarrow>
             [Select (1 * Second), RequireFail ''Timed out waiting for vault to terminate''])
      else [])"

definition Stop :: "TestVault \<Rightarrow> gerror option \<Rightarrow> race \<Rightarrow> event list" where
  "Stop tv kill_err r =
    (let deferred = [FreeportReturn (ports tv)]
     in if Process (cmd tv) = None then deferred
        else
          (case kill_err of
             Some err \<Rightarrow>
               if errors_Is err ErrProcessDone then [Kill] @ deferred
               else [Kill, Errorf ''err: %s'' err] @ Stop_wait tv r @ deferred
           | None \<Rightarrow> [Kill] @ Stop_wait tv r @ deferred))"

subsection \<open>Reading a trace\<close>

text \<open>The ports taken from freeport, in order.\<close>

fun taken :: "event list \<Rightarrow> int list" where
  "taken [] = []"
| "taken (MustTake p # es) = p # taken es"
| "taken (e # es) = taken es"

text \<open>The calls of \<open>freeport.Return\<close>, in order, and the ports they hand back.\<close>

fun returns :: "event list \<Rightarrow> int list list" where
  "returns [] = []"
| "returns (FreeportReturn ps # es) = ps # returns es"
| "returns (e # es) = returns es"

definition released :: "event list \<Rightarrow> int list" where
  "released es = concat (returns es)"

text \<open>The tokens generated, in order.\<close>

fun generated :: "event list \<Rightarrow> string list" where
  "generated [] = []"
| "generated (Generate s # es) = s # generated es"
| "generated (e # es) = generated es"

text \<open>The values sent on the completion channel.\<close>

fun sent :: "event list \<Rightarrow> gerror option list" where
  "sent [] = []"
| "sent (ChanSend v # es) = v # sent es"
| "sent (e # es) = sent es"

text \<open>The durations slept, and the timeouts of the selects.\<close>

fun slept :: "event list \<Rightarrow> duration list" where
  "slept [] = []"
| "slept (Sleep d # es) = d # slept es"
| "slept (e # es) = slept es"

fun selected :: "event list \<Rightarrow> duration list" where
  "selected [] = []"
| "selected (Select d # es) = d # selected es"
| "selected (e # es) = selected es"

text \<open>The errors reported to the test: \<open>Errorf\<close>, \<open>Fatalf\<close> and \<open>require.Fail\<close>.\<close>

fun reported :: "event list \<Rightarrow> event list" where
  "reported [] = []"
| "reported (Errorf f e # es) = Errorf f e # reported es"
| "reported (Fatalf f e # es) = Fatalf f e # reported es"
| "reported (RequireFail m # es) = RequireFail m # reported es"
| "reported (e # es) = reported es"

subsection \<open>Sample runs\<close>

text \<open>
  One iteration in which everything works: the process keeps running past the start
  timeout, the first status query is refused, the second reports an uninitialised server
  and the third an initialised one.
\<close>

definition sample_attempt :: attempt_env where
  "sample_attempt =
     \<lparr>take_port = 20113, gen_token = ''0e2fb3a4'', new_client_err = None,
      start_err = None, start_race = TimedOut,
      status_polls = [(False, Some (ErrMsg ''connection refused'')), (False, None), (True, None)],
      rand_raw = 4321\<rparr>"

text \<open>
  A run of the retry loop: the process of iteration 10 exits at once, the server of
  iteration 9 never answers, iteration 8 works.
\<close>

definition sample_env :: "nat \<Rightarrow> attempt_env" where
  "sample_env i =
     sample_attempt
       \<lparr>take_port := 20100 + int i,
        start_race := (if i = 10 then Received (Some (ErrMsg ''exit status 1'')) else TimedOut),
        status_polls :=
          (if i = 9 then [(False, Some (ErrMsg ''connection refused''))]
           else status_polls sample_attempt)\<rparr>"

text \<open>A machine without the binary: \<open>cmd.Start()\<close> fails in every iteration.\<close>

definition absent_env :: "nat \<Rightarrow> attempt_env" where
  "absent_env i =
     sample_attempt
       \<lparr>take_port := 20100 + int i,
        start_err := Some (ErrMsg ''exec: vault: executable file not found'')\<rparr>"

text \<open>The fixture that \<open>NewTestVaultDelayed\<close> builds in \<open>sample_attempt\<close>.\<close>

definition delayed_fixture :: TestVault where
  "delayed_fixture =
     \<lparr>cmd = \<lparr>Args = [''vault'', ''server'', ''-dev'', ''-dev-listen-address=127.0.0.1:20113'',
                     ''-dev-root-token-id=0e2fb3a4''],
             Stdout = Some OsStdout, Stderr = Some OsStderr, Process = None\<rparr>,
      waitCh = None, ports = [], Addr = ''-dev-listen-address=127.0.0.1:20113'',
      HTTPAddr = ''http://127.0.0.1:20113'', RootToken = ''0e2fb3a4'',
      Config = \<lparr>Enabled = Some True, Token = ''0e2fb3a4'', Addr = ''http://127.0.0.1:20113''\<rparr>,
      Client = \<lparr>address = ''http://127.0.0.1:20113'', token = ''0e2fb3a4''\<rparr>\<rparr>"

text \<open>The fixture that \<open>NewTestVaultFromPath\<close> returns in \<open>sample_env\<close>.\<close>

definition eager_fixture :: TestVault where
  "eager_fixture =
     \<lparr>cmd = \<lparr>Args = [''vault'', ''server'', ''-dev'', ''-dev-listen-address=127.0.0.1:20108'',
                     ''-dev-root-token-id=0e2fb3a4''],
             Stdout = Some TestLog, Stderr = Some TestLog, Process = Some Proc\<rparr>,
      waitCh = Some Chan, ports = [20110, 20109, 20108],
      Addr = ''-dev-listen-address=127.0.0.1:20108'',
      HTTPAddr = ''http://127.0.0.1:20108'', RootToken = ''0e2fb3a4'',
      Config = \<lparr>Enabled = Some True, Token = ''0e2fb3a4'', Addr = ''http://127.0.0.1:20108''\<rparr>,
      Client = \<lparr>address = ''http://127.0.0.1:20108'', token = ''0e2fb3a4''\<rparr>\<rparr>"

text \<open>The trace of \<open>NewTestVaultFromPath\<close> in \<open>sample_env\<close>.\<close>

definition sample_trace :: "event list" where
  "sample_trace =
   [MustTake 20110, Generate ''0e2fb3a4'', CmdStart, MakeChan, Go, Select 500000000, Sleep 321000000,
    MustTake 20109, Generate ''0e2fb3a4'', CmdStart, MakeChan, Go, Select 500000000, InitStatus, Sleep 321000000,
    MustTake 20108, Generate ''0e2fb3a4'', CmdStart, MakeChan, Go, Select 500000000, InitStatus, InitStatus, InitStatus]"

text \<open>The delayed fixture once \<open>Start\<close> has run and its goroutine has started the process.\<close>

definition running_delayed_fixture :: TestVault where
  "running_delayed_fixture =
     delayed_fixture\<lparr>cmd := (cmd delayed_fixture)\<lparr>Process := Some Proc\<rparr>, waitCh := Some Chan\<rparr>"







section \<open>Properties\<close>

subsection \<open>Traces and the retry loop\<close>

lemma taken_append: "taken (xs @ ys) = taken xs @ taken ys"
  by (induction xs rule: taken.induct) simp_all

lemma generated_append: "generated (xs @ ys) = generated xs @ generated ys"
  by (induction xs rule: generated.induct) simp_all




lemma sent_append: "sent (xs @ ys) = sent xs @ sent ys"
  by (induction xs rule: sent.induct) simp_all

lemma count_append: "count_list (xs @ ys) e = count_list xs e + count_list ys e"
  by (induction xs) simp_all

lemma polls_quiet:
  "taken (replicate n InitStatus) = []" "generated (replicate n InitStatus) = []"
  "slept (replicate n InitStatus) = []" "selected (replicate n InitStatus) = []"
  "sent (replicate n InitStatus) = []" "count_list (replicate n InitStatus) CmdStart = 0"
  by (induction n) simp_all

lemma attempt_body_Done:
  "attempt_body binary mult i a ps = (Done tv, ps', ev) \<Longrightarrow>
   tv = \<lparr>cmd = \<lparr>Args = [binary, ''server'', ''-dev'', bind_arg (take_port a), root_arg (gen_token a)],
               Stdout = Some TestLog, Stderr = Some TestLog, Process = Some Proc\<rparr>,
         waitCh = Some Chan, ports = ps @ [take_port a], Addr = bind_arg (take_port a),
         HTTPAddr = http_addr (take_port a), RootToken = gen_token a,
         Config = \<lparr>Enabled = Some True, Token = gen_token a, Addr = http_addr (take_port a)\<rparr>,
         Client = \<lparr>address = http_addr (take_port a), token = gen_token a\<rparr>\<rparr>"
  by (auto simp: attempt_body_def Let_def exec_Command_def NewClient_def SetToken_def
           split: option.splits race.splits if_splits prod.splits)

lemma attempt_body_trace:
  "attempt_body binary mult i a ps = (st, ps', ev) \<Longrightarrow>
   ps' = ps @ [take_port a] \<and> taken ev = [take_port a] \<and> generated ev = [gen_token a]
   \<and> sent ev = []"
  by (auto simp: attempt_body_def Let_def taken_append generated_append sent_append polls_quiet
           split: option.splits race.splits if_splits prod.splits)

lemma attempt_body_final: "attempt_body binary mult 0 a ps \<noteq> (Continue, ps', ev)"
  by (auto simp: attempt_body_def Let_def 
           split: option.splits race.splits if_splits prod.splits)

declare retry_loop.simps [simp del]

lemma retry_loop_Fatal:
  "attempt_body binary mult i (env i) ps = (Fatal, ps', ev) \<Longrightarrow>
   retry_loop binary mult env i ps = (Aborted, ev)"
  by (subst retry_loop.simps) simp

lemma retry_loop_Done:
  "attempt_body binary mult i (env i) ps = (Done tv, ps', ev) \<Longrightarrow>
   retry_loop binary mult env i ps = (Returned tv, ev)"
  by (subst retry_loop.simps) simp

lemma retry_loop_Continue:
  "attempt_body binary mult (Suc j) (env (Suc j)) ps = (Continue, ps', ev) \<Longrightarrow>
   retry_loop binary mult env j ps' = (r, ev') \<Longrightarrow>
   retry_loop binary mult env (Suc j) ps = (r, ev @ ev')"
  by (subst retry_loop.simps) simp

lemma retry_loop_not_nil: "fst (retry_loop binary mult env i ps) \<noteq> ReturnedNil"
proof (induction i arbitrary: ps)
  case 0
  obtain st ps' ev where b: "attempt_body binary mult 0 (env 0) ps = (st, ps', ev)"
    using prod_cases3 by blast
  show ?case
  proof (cases st)
    case Continue
    with b attempt_body_final show ?thesis by blast
  next
    case (Done tv)
    with b show ?thesis by (simp add: retry_loop_Done)
  next
    case Fatal
    with b show ?thesis by (simp add: retry_loop_Fatal)
  qed
next
  case (Suc i)
  obtain st ps' ev where b: "attempt_body binary mult (Suc i) (env (Suc i)) ps = (st, ps', ev)"
    using prod_cases3 by blast
  show ?case
  proof (cases st)
    case Continue
    obtain r ev' where l: "retry_loop binary mult env i ps' = (r, ev')"
      by fastforce
    from Suc[of ps'] l have "r \<noteq> ReturnedNil" by simp
    with b Continue l show ?thesis by (simp add: retry_loop_Continue)
  next
    case (Done tv)
    with b show ?thesis by (simp add: retry_loop_Done)
  next
    case Fatal
    with b show ?thesis by (simp add: retry_loop_Fatal)
  qed
qed

text \<open>The fixture that is returned is the one of the last iteration that ran.\<close>

lemma retry_loop_Returned:
  "retry_loop binary mult env i ps = (Returned tv, evs) \<Longrightarrow>
   \<exists>j ps0 ev0 evj. j \<le> i \<and> attempt_body binary mult j (env j) ps0 = (Done tv, ps0 @ [take_port (env j)], evj)
      \<and> evs = ev0 @ evj \<and> ps0 = ps @ taken ev0"
proof (induction i arbitrary: ps evs)
  case 0
  obtain st ps' ev where b: "attempt_body binary mult 0 (env 0) ps = (st, ps', ev)"
    using prod_cases3 by blast
  note tr = attempt_body_trace[OF b]
  show ?case
  proof (cases st)
    case Continue
    with b attempt_body_final show ?thesis by blast
  next
    case (Done x)
    with "0.prems" b have "x = tv" "ev = evs" by (simp_all add: retry_loop_Done)
    with b Done tr have "attempt_body binary mult 0 (env 0) ps = (Done tv, ps @ [take_port (env 0)], evs)"
      by simp
    then show ?thesis
      by (intro exI[of _ 0] exI[of _ ps] exI[of _ "[]"] exI[of _ evs]) simp
  next
    case Fatal
    with "0.prems" b show ?thesis by (simp add: retry_loop_Fatal)
  qed
next
  case (Suc i)
  obtain st ps' ev where b: "attempt_body binary mult (Suc i) (env (Suc i)) ps = (st, ps', ev)"
    using prod_cases3 by blast
  note tr = attempt_body_trace[OF b]
  show ?case
  proof (cases st)
    case Continue
    obtain r ev' where l: "retry_loop binary mult env i ps' = (r, ev')"
      by fastforce
    from Suc.prems b Continue l have r: "r = Returned tv" and e: "evs = ev @ ev'"
      by (simp_all add: retry_loop_Continue)
    from Suc.IH[of ps' ev'] l r obtain j ps0 ev0 evj where
      j: "j \<le> i" "attempt_body binary mult j (env j) ps0 = (Done tv, ps0 @ [take_port (env j)], evj)"
         "ev' = ev0 @ evj" "ps0 = ps' @ taken ev0"
      by blast
    from j tr e have "j \<le> Suc i \<and> attempt_body binary mult j (env j) ps0 = (Done tv, ps0 @ [take_port (env j)], evj)
       \<and> evs = (ev @ ev0) @ evj \<and> ps0 = ps @ taken (ev @ ev0)"
      by (simp add: taken_append)
    then show ?thesis by blast
  next
    case (Done x)
    with Suc.prems b have "x = tv" "ev = evs" by (simp_all add: retry_loop_Done)
    with b Done tr have "attempt_body binary mult (Suc i) (env (Suc i)) ps = (Done tv, ps @ [take_port (env (Suc i))], evs)"
      by simp
    then show ?thesis
      by (intro exI[of _ "Suc i"] exI[of _ ps] exI[of _ "[]"] exI[of _ evs]) simp
  next
    case Fatal
    with Suc.prems b show ?thesis by (simp add: retry_loop_Fatal)
  qed
qed

lemma retry_loop_ports:
  assumes "retry_loop binary mult env i ps = (Returned tv, evs)"
  shows "ports tv = ps @ taken evs"
proof -
  from retry_loop_Returned[OF assms] obtain j ps0 ev0 evj where
    j: "attempt_body binary mult j (env j) ps0 = (Done tv, ps0 @ [take_port (env j)], evj)"
       "evs = ev0 @ evj" "ps0 = ps @ taken ev0"
    by blast
  from attempt_body_Done[OF j(1)] have "ports tv = ps0 @ [take_port (env j)]" by simp
  with attempt_body_trace[OF j(1)] j show ?thesis by (simp add: taken_append)
qed








subsection \<open>The readiness poller\<close>








lemma retry_loop_sent: "sent (snd (retry_loop binary mult env i ps)) = []"
proof (induction i arbitrary: ps)
  case 0
  obtain st ps' ev where b: "attempt_body binary mult 0 (env 0) ps = (st, ps', ev)"
    using prod_cases3 by blast
  have nc: "st \<noteq> Continue" using b attempt_body_final by blast
  with b attempt_body_trace[OF b] show ?case
    by (cases st) (simp_all add: retry_loop_Done retry_loop_Fatal)
next
  case (Suc i)
  obtain st ps' ev where b: "attempt_body binary mult (Suc i) (env (Suc i)) ps = (st, ps', ev)"
    using prod_cases3 by blast
  obtain r' ev' where l: "retry_loop binary mult env i ps' = (r', ev')"
    by fastforce
  with Suc[of ps'] have "sent ev' = []" by simp
  with b l attempt_body_trace[OF b] show ?case
    by (cases st) (simp_all add: retry_loop_Done retry_loop_Fatal retry_loop_Continue sent_append)
qed

subsection \<open>Durations\<close>







subsection \<open>The sample runs, evaluated\<close>

lemmas fmt_defs = bind_arg_def http_addr_def root_arg_def itoa_def digit_def
lemmas run_defs = attempt_body_def Let_def exec_Command_def NewClient_def SetToken_def
  waitForAPI_def WaitForResult_def status_test_def start_timeout_def Millisecond_def
  retry_wait_def Int31n_def

lemma sample_run:
  "NewTestVaultFromPath ''vault'' 1 sample_env = (Returned eager_fixture, sample_trace)"
proof -
  have a10: "attempt_body ''vault'' 1 10 (sample_env 10) [] =
     (Continue, [20110], [MustTake 20110, Generate ''0e2fb3a4'', CmdStart, MakeChan, Go,
        Select 500000000, Sleep 321000000])"
    by (simp add: run_defs sample_env_def sample_attempt_def)
  have a9: "attempt_body ''vault'' 1 9 (sample_env 9) [20110] =
     (Continue, [20110, 20109], [MustTake 20109, Generate ''0e2fb3a4'', CmdStart, MakeChan, Go,
        Select 500000000, InitStatus, Sleep 321000000])"
    by (simp add: run_defs sample_env_def sample_attempt_def)
  have a8: "attempt_body ''vault'' 1 8 (sample_env 8) [20110, 20109] =
     (Done eager_fixture, [20110, 20109, 20108], [MustTake 20108, Generate ''0e2fb3a4'', CmdStart,
        MakeChan, Go, Select 500000000, InitStatus, InitStatus, InitStatus])"
    by (simp add: run_defs sample_env_def sample_attempt_def eager_fixture_def fmt_defs)
  have l8: "retry_loop ''vault'' 1 sample_env 8 [20110, 20109] =
     (Returned eager_fixture, [MustTake 20108, Generate ''0e2fb3a4'', CmdStart,
        MakeChan, Go, Select 500000000, InitStatus, InitStatus, InitStatus])"
    by (rule retry_loop_Done[where env = sample_env, OF a8])
  have "retry_loop ''vault'' 1 sample_env (Suc 8) [20110] =
     (Returned eager_fixture,
      [MustTake 20109, Generate ''0e2fb3a4'', CmdStart, MakeChan, Go,
        Select 500000000, InitStatus, Sleep 321000000] @
      [MustTake 20108, Generate ''0e2fb3a4'', CmdStart,
        MakeChan, Go, Select 500000000, InitStatus, InitStatus, InitStatus])"
    using a9 by (intro retry_loop_Continue[where env = sample_env, OF _ l8]) simp
  then have l9: "retry_loop ''vault'' 1 sample_env 9 [20110] =
     (Returned eager_fixture,
      [MustTake 20109, Generate ''0e2fb3a4'', CmdStart, MakeChan, Go,
        Select 500000000, InitStatus, Sleep 321000000,
       MustTake 20108, Generate ''0e2fb3a4'', CmdStart,
        MakeChan, Go, Select 500000000, InitStatus, InitStatus, InitStatus])"
    by simp
  have "retry_loop ''vault'' 1 sample_env (Suc 9) [] =
     (Returned eager_fixture,
      [MustTake 20110, Generate ''0e2fb3a4'', CmdStart, MakeChan, Go,
        Select 500000000, Sleep 321000000] @
      [MustTake 20109, Generate ''0e2fb3a4'', CmdStart, MakeChan, Go,
        Select 500000000, InitStatus, Sleep 321000000,
       MustTake 20108, Generate ''0e2fb3a4'', CmdStart,
        MakeChan, Go, Select 500000000, InitStatus, InitStatus, InitStatus])"
    using a10 by (intro retry_loop_Continue[where env = sample_env, OF _ l9]) simp
  then show ?thesis by (simp add: NewTestVaultFromPath_def sample_trace_def)
qed

lemma sample_run_delayed:
  "NewTestVaultDelayed sample_attempt =
     (Returned delayed_fixture, [MustTake 20113, Generate ''0e2fb3a4''])"
  by (simp add: NewTestVaultDelayed_def sample_attempt_def delayed_fixture_def Let_def fmt_defs
        exec_Command_def NewClient_def SetToken_def)

lemma absent_run:
  "NewTestVaultFromPath ''vault'' 1 absent_env =
     (Aborted, [MustTake 20110, Generate ''0e2fb3a4'', CmdStart,
                Fatalf ''failed to start vault: %v'' (ErrMsg ''exec: vault: executable file not found'')])"
  unfolding NewTestVaultFromPath_def
  by (rule retry_loop_Fatal[where env = absent_env and ps' = "[20110]"])
     (simp add: run_defs absent_env_def sample_attempt_def)






subsection \<open>The fixtures that the constructors return\<close>

lemma eager_fixture_shape:
  assumes "NewTestVaultFromPath binary mult env = (Returned tv, evs)"
  shows "tv = \<lparr>cmd = \<lparr>Args = [binary, ''server'', ''-dev'', bind_arg (last (taken evs)),
                           root_arg (last (generated evs))],
                   Stdout = Some TestLog, Stderr = Some TestLog, Process = Some Proc\<rparr>,
             waitCh = Some Chan, ports = taken evs, Addr = bind_arg (last (taken evs)),
             HTTPAddr = http_addr (last (taken evs)), RootToken = last (generated evs),
             Config = \<lparr>Enabled = Some True, Token = last (generated evs),
                       Addr = http_addr (last (taken evs))\<rparr>,
             Client = \<lparr>address = http_addr (last (taken evs)),
                       token = last (generated evs)\<rparr>\<rparr>"
proof -
  from assms have l: "retry_loop binary mult env 10 [] = (Returned tv, evs)"
    by (simp add: NewTestVaultFromPath_def)
  from retry_loop_Returned[OF l] obtain j ps0 ev0 evj where
    j: "attempt_body binary mult j (env j) ps0 = (Done tv, ps0 @ [take_port (env j)], evj)"
       "evs = ev0 @ evj" "ps0 = [] @ taken ev0"
    by blast
  from attempt_body_trace[OF j(1)] j(2,3)
  have "last (taken evs) = take_port (env j)" "last (generated evs) = gen_token (env j)"
    "taken evs = ps0 @ [take_port (env j)]"
    by (simp_all add: taken_append generated_append)
  with attempt_body_Done[OF j(1)] show ?thesis by simp
qed

lemma delayed_fixture_shape:
  assumes "NewTestVaultDelayed a = (Returned tv, evs)"
  shows "tv = \<lparr>cmd = \<lparr>Args = [''vault'', ''server'', ''-dev'', bind_arg (take_port a),
                           root_arg (gen_token a)],
                   Stdout = Some OsStdout, Stderr = Some OsStderr, Process = None\<rparr>,
             waitCh = None, ports = [], Addr = bind_arg (take_port a),
             HTTPAddr = http_addr (take_port a), RootToken = gen_token a,
             Config = \<lparr>Enabled = Some True, Token = gen_token a,
                       Addr = http_addr (take_port a)\<rparr>,
             Client = \<lparr>address = http_addr (take_port a), token = gen_token a\<rparr>\<rparr>
         \<and> evs = [MustTake (take_port a), Generate (gen_token a)]"
  using assms
  by (auto simp: NewTestVaultDelayed_def Let_def exec_Command_def NewClient_def SetToken_def
           split: option.splits)

text \<open>The eager path: Stop hands back every port the constructor took, once.\<close>

lemma eager_ports_released:
  assumes "NewTestVaultFromPath binary mult env = (Returned tv, evs)"
  shows "returns (Stop tv kill_err r) = [taken evs]"
proof -
  from eager_fixture_shape[OF assms] have "ports tv = taken evs" by simp
  then show ?thesis
    by (auto simp: Stop_def Stop_wait_def Let_def split: option.splits race.splits)
qed

lemma delayed_ports_not_released:
  assumes "NewTestVaultDelayed a = (Returned tv, evs)"
  shows "taken evs = [take_port a] \<and> returns (Stop tv kill_err r) = [[]]"
proof -
  from delayed_fixture_shape[OF assms] have "ports tv = []" "taken evs = [take_port a]" by simp_all
  then show ?thesis
    by (auto simp: Stop_def Stop_wait_def Let_def split: option.splits race.splits)
qed

subsection \<open>One watcher for each channel\<close>

lemma count_list_polls: "count_list (replicate n InitStatus) Go = 0"
  "count_list (replicate n InitStatus) MakeChan = 0"
  by (induction n) simp_all

lemma attempt_body_one_watcher:
  "attempt_body binary mult i a ps = (st, ps', ev) \<Longrightarrow>
   count_list ev Go = count_list ev MakeChan \<and> count_list ev Go \<le> 1"
  by (auto simp: attempt_body_def Let_def count_append count_list_polls
           split: option.splits race.splits if_splits prod.splits)

section \<open>The claims\<close>

subsection \<open>C1: a missing binary\<close>

text \<open>
  C1 says that with an absent binary the constructor tries 11 times and gives up on the
  last. In \<open>absent_env\<close> every \<open>cmd.Start()\<close> fails, and the constructor stops in
  the first iteration: one port taken, one call of \<open>cmd.Start()\<close>, not 11.
\<close>

theorem absent_binary_single_attempt:
  "map (start_err \<circ> absent_env) [0..<11]
     = replicate 11 (Some (ErrMsg ''exec: vault: executable file not found''))
   \<and> fst (NewTestVaultFromPath ''vault'' 1 absent_env) = Aborted
   \<and> count_list (snd (NewTestVaultFromPath ''vault'' 1 absent_env)) CmdStart = 1
   \<and> count_list (snd (NewTestVaultFromPath ''vault'' 1 absent_env)) CmdStart \<noteq> 11
   \<and> taken (snd (NewTestVaultFromPath ''vault'' 1 absent_env)) = [20110]"
  by (simp add: absent_run absent_env_def sample_attempt_def numeral_eq_Suc)

text \<open>
  C1, as the code has it: the check of lines 92 to 94 has no test of the index, so a
  failure of \<open>cmd.Start()\<close> ends the test in whichever iteration it happens. When it
  happens in the first one (index 10), the constructor has taken one port, called
  \<open>cmd.Start()\<close> once and reports that call's error.
\<close>

theorem launch_failure_is_fatal_at_once:
  assumes "new_client_err (env 10) = None" and "start_err (env 10) = Some err"
  shows "NewTestVaultFromPath binary mult env =
           (Aborted, [MustTake (take_port (env 10)), Generate (gen_token (env 10)), CmdStart,
                      Fatalf ''failed to start vault: %v'' err])
         \<and> count_list (snd (NewTestVaultFromPath binary mult env)) CmdStart = 1
         \<and> fst (attempt_body binary mult i (env 10) ps) = Fatal"
proof -
  have b: "attempt_body binary mult i (env 10) ps =
      (Fatal, ps @ [take_port (env 10)],
       [MustTake (take_port (env 10)), Generate (gen_token (env 10)), CmdStart,
        Fatalf ''failed to start vault: %v'' err])" for i ps
    using assms by (simp add: attempt_body_def Let_def)
  from retry_loop_Fatal[where env = env, OF b[of 10 "[]"]] b[of i ps] show ?thesis
    by (simp add: NewTestVaultFromPath_def)
qed

text \<open>C1, the run without the binary as an instance.\<close>

theorem launch_failure_is_fatal_at_once_witness:
  "new_client_err (absent_env 10) = None
   \<and> start_err (absent_env 10) = Some (ErrMsg ''exec: vault: executable file not found'')
   \<and> NewTestVaultFromPath ''vault'' 1 absent_env =
       (Aborted, [MustTake 20110, Generate ''0e2fb3a4'', CmdStart,
                  Fatalf ''failed to start vault: %v'' (ErrMsg ''exec: vault: executable file not found'')])"
proof -
  have h1: "new_client_err (absent_env 10) = None"
    and h2: "start_err (absent_env 10) = Some (ErrMsg ''exec: vault: executable file not found'')"
    by (simp_all add: absent_env_def sample_attempt_def)
  from launch_failure_is_fatal_at_once[where env = absent_env, OF h1 h2, of "''vault''" 1 0 "[]"]
    h1 h2 show ?thesis
    by (simp add: absent_env_def sample_attempt_def)
qed

subsection \<open>C2: the ports after Stop\<close>

text \<open>
  C2 says that after \<open>Stop\<close> every port the fixture took from freeport has been handed
  back once. The constructor with the retry loop does that (\<open>eager_ports_released\<close>
  above). \<open>NewTestVaultDelayed\<close> takes a port and does not record it: in the sample run
  it takes port 20113, the fixture's \<open>ports\<close> is empty, and \<open>Stop\<close>, whether called at
  once or after \<open>Start\<close> and the goroutine have run, hands back nothing.
\<close>

theorem delayed_port_never_released:
  "NewTestVaultDelayed sample_attempt = (Returned delayed_fixture, [MustTake 20113, Generate ''0e2fb3a4''])
   \<and> Stop delayed_fixture None TimedOut = [FreeportReturn []]
   \<and> Start delayed_fixture 1 TimedOut (status_polls sample_attempt)
       = (delayed_fixture\<lparr>waitCh := Some Chan\<rparr>, None,
          [MakeChan, Go, Select 500000000, InitStatus, InitStatus, InitStatus])
   \<and> watcher_delayed (delayed_fixture\<lparr>waitCh := Some Chan\<rparr>) None
         (Some (Some (ErrMsg ''signal: killed'')))
       = (running_delayed_fixture, [CmdStart, CmdWait, ChanSend (Some (ErrMsg ''signal: killed''))])
   \<and> Stop running_delayed_fixture None (Received (Some (ErrMsg ''signal: killed'')))
       = [Kill, Select Second, FreeportReturn []]
   \<and> released (Stop running_delayed_fixture None (Received (Some (ErrMsg ''signal: killed'')))) = []"
  by (simp add: sample_run_delayed)
     (simp add: Stop_def Stop_wait_def Start_def watcher_delayed_def released_def running_delayed_fixture_def
        delayed_fixture_def sample_attempt_def Let_def waitForAPI_def WaitForResult_def
        status_test_def start_timeout_def Millisecond_def numeral_eq_Suc)

subsection \<open>C3: the readiness deadline\<close>




subsection \<open>C4: Stop releases the ports last\<close>

text \<open>
  C4: whatever the fixture, the outcome of the kill and the outcome of the wait, the trace of
  \<open>Stop\<close> ends with the one call of \<open>freeport.Return\<close> on the fixture's recorded
  ports, and nothing is returned before it: the kill and the bounded wait, where they
  happen, come first. Without a process there is nothing before the release: no kill and
  no wait. With a process, the kill is the first thing \<open>Stop\<close> does.
\<close>

theorem Stop_releases_ports_last:
  "\<exists>pre. Stop tv kill_err r = pre @ [FreeportReturn (ports tv)]
       \<and> returns pre = []
       \<and> (Process (cmd tv) = None \<longrightarrow> pre = [])
       \<and> (Process (cmd tv) \<noteq> None \<longrightarrow> pre \<noteq> [] \<and> hd pre = Kill)"
  by (auto simp: Stop_def Stop_wait_def Let_def split: option.splits race.splits)

text \<open>C4 on the two sample fixtures: one never started, one running whose kill fails.\<close>

theorem Stop_releases_ports_last_witness:
  "Process (cmd delayed_fixture) = None
   \<and> Stop delayed_fixture None TimedOut = [FreeportReturn []]
   \<and> Process (cmd eager_fixture) \<noteq> None
   \<and> last (Stop eager_fixture (Some (ErrMsg ''operation not permitted'')) TimedOut)
        = FreeportReturn [20110, 20109, 20108]
   \<and> hd (Stop eager_fixture (Some (ErrMsg ''operation not permitted'')) TimedOut) = Kill"
proof -
  have h1: "Process (cmd delayed_fixture) = None" by (simp add: delayed_fixture_def)
  have h2: "Process (cmd eager_fixture) \<noteq> None" by (simp add: eager_fixture_def)
  have p1: "ports delayed_fixture = []" by (simp add: delayed_fixture_def)
  have p2: "ports eager_fixture = [20110, 20109, 20108]" by (simp add: eager_fixture_def)
  from Stop_releases_ports_last[of delayed_fixture None TimedOut] h1 p1
  have "Stop delayed_fixture None TimedOut = [FreeportReturn []]" by auto
  moreover
  from Stop_releases_ports_last[of eager_fixture "Some (ErrMsg ''operation not permitted'')" TimedOut]
    h2 p2
  have "last (Stop eager_fixture (Some (ErrMsg ''operation not permitted'')) TimedOut)
        = FreeportReturn [20110, 20109, 20108]
     \<and> hd (Stop eager_fixture (Some (ErrMsg ''operation not permitted'')) TimedOut) = Kill"
    by auto
  ultimately show ?thesis using h1 h2 by simp
qed

subsection \<open>C5: the error of the kill\<close>

text \<open>
  C5: on a fixture with a process, a kill that fails because the process is already done
  (\<open>errors.Is(err, os.ErrProcessDone)\<close>) ends \<open>Stop\<close> at once with nothing
  reported to the test; a kill that fails for any other reason is reported with
  \<open>t.Errorf\<close> right after the kill. A kill that succeeds, followed by a completion
  signal within the second, reports nothing either.
\<close>

theorem Stop_kill_errors:
  assumes "Process (cmd tv) \<noteq> None"
  shows "(errors_Is err ErrProcessDone \<longrightarrow>
            Stop tv (Some err) r = [Kill, FreeportReturn (ports tv)]
          \<and> reported (Stop tv (Some err) r) = [])
       \<and> (\<not> errors_Is err ErrProcessDone \<longrightarrow>
            take 2 (Stop tv (Some err) r) = [Kill, Errorf ''err: %s'' err]
          \<and> Errorf ''err: %s'' err \<in> set (reported (Stop tv (Some err) r)))
       \<and> reported (Stop tv None (Received v)) = []"
  using assms by (auto simp: Stop_def Stop_wait_def Let_def split: option.splits race.splits)

text \<open>
  C5 on the running sample fixture, for a wrapped \<open>os.ErrProcessDone\<close> and for
  another error.
\<close>

theorem Stop_kill_errors_witness:
  "Process (cmd eager_fixture) \<noteq> None
   \<and> errors_Is (ErrWrap ''kill'' ErrProcessDone) ErrProcessDone
   \<and> Stop eager_fixture (Some (ErrWrap ''kill'' ErrProcessDone)) TimedOut
       = [Kill, FreeportReturn (ports eager_fixture)]
   \<and> reported (Stop eager_fixture (Some (ErrWrap ''kill'' ErrProcessDone)) TimedOut) = []
   \<and> \<not> errors_Is (ErrMsg ''operation not permitted'') ErrProcessDone
   \<and> take 2 (Stop eager_fixture (Some (ErrMsg ''operation not permitted'')) (Received None))
       = [Kill, Errorf ''err: %s'' (ErrMsg ''operation not permitted'')]"
proof -
  have h: "Process (cmd eager_fixture) \<noteq> None" by (simp add: eager_fixture_def)
  have e1: "errors_Is (ErrWrap ''kill'' ErrProcessDone) ErrProcessDone" by simp
  have e2: "\<not> errors_Is (ErrMsg ''operation not permitted'') ErrProcessDone" by simp
  from Stop_kill_errors[OF h, of "ErrWrap ''kill'' ErrProcessDone" TimedOut] e1
    Stop_kill_errors[OF h, of "ErrMsg ''operation not permitted''" "Received None"] e2 h
  show ?thesis by blast
qed

subsection \<open>C6: the command line\<close>

text \<open>
  C6 says that on both paths the output of the process goes to a log sink of the test. The
  fixture of \<open>NewTestVaultDelayed\<close> writes to \<open>os.Stdout\<close> and \<open>os.Stderr\<close>
  instead (lines 151 and 152).
\<close>

theorem delayed_output_not_test_log:
  "NewTestVaultDelayed sample_attempt
     = (Returned delayed_fixture, [MustTake 20113, Generate ''0e2fb3a4''])
   \<and> Stdout (cmd delayed_fixture) = Some OsStdout
   \<and> Stderr (cmd delayed_fixture) = Some OsStderr
   \<and> Stdout (cmd delayed_fixture) \<noteq> Some TestLog
   \<and> Stderr (cmd delayed_fixture) \<noteq> Some TestLog"
  by (simp add: sample_run_delayed) (simp add: delayed_fixture_def)

text \<open>
  C6, as the code has it: on both paths the arguments are \<open>server -dev
  -dev-listen-address=127.0.0.1:<port> -dev-root-token-id=<token>\<close> for the port and the
  token of the fixture. The constructor with the retry loop runs the given binary and
  attaches both streams to the test's log writer; \<open>NewTestVaultDelayed\<close> runs
  \<open>vault\<close>, attaches the streams to \<open>os.Stdout\<close> and \<open>os.Stderr\<close>, and does
  nothing but take the port and generate the token: the process is not started.
\<close>

theorem command_line_of_fixture:
  "(NewTestVaultFromPath binary mult env = (Returned tv, evs) \<longrightarrow>
      cmd tv = \<lparr>Args = [binary, ''server'', ''-dev'',
                        ''-dev-listen-address=127.0.0.1:'' @ itoa (last (taken evs)),
                        ''-dev-root-token-id='' @ last (generated evs)],
                Stdout = Some TestLog, Stderr = Some TestLog, Process = Some Proc\<rparr>
      \<and> RootToken tv = last (generated evs)
      \<and> last (ports tv) = last (taken evs))
   \<and> (NewTestVaultDelayed a = (Returned tv', evs') \<longrightarrow>
      cmd tv' = \<lparr>Args = [''vault'', ''server'', ''-dev'',
                         ''-dev-listen-address=127.0.0.1:'' @ itoa (take_port a),
                         ''-dev-root-token-id='' @ gen_token a],
                 Stdout = Some OsStdout, Stderr = Some OsStderr, Process = None\<rparr>
      \<and> RootToken tv' = gen_token a
      \<and> evs' = [MustTake (take_port a), Generate (gen_token a)])"
proof (intro conjI impI)
  assume e: "NewTestVaultFromPath binary mult env = (Returned tv, evs)"
  note sh = eager_fixture_shape[OF e]
  show "cmd tv = \<lparr>Args = [binary, ''server'', ''-dev'',
                        ''-dev-listen-address=127.0.0.1:'' @ itoa (last (taken evs)),
                        ''-dev-root-token-id='' @ last (generated evs)],
                Stdout = Some TestLog, Stderr = Some TestLog, Process = Some Proc\<rparr>"
    by (subst sh) (simp add: bind_arg_def root_arg_def)
  show "RootToken tv = last (generated evs)" by (subst sh) simp
  show "last (ports tv) = last (taken evs)" by (subst sh) simp
next
  assume d: "NewTestVaultDelayed a = (Returned tv', evs')"
  note sh = delayed_fixture_shape[OF d]
  show "cmd tv' = \<lparr>Args = [''vault'', ''server'', ''-dev'',
                         ''-dev-listen-address=127.0.0.1:'' @ itoa (take_port a),
                         ''-dev-root-token-id='' @ gen_token a],
                 Stdout = Some OsStdout, Stderr = Some OsStderr, Process = None\<rparr>"
    using sh by (simp add: bind_arg_def root_arg_def)
  show "RootToken tv' = gen_token a" using sh by simp
  show "evs' = [MustTake (take_port a), Generate (gen_token a)]" using sh by simp
qed

text \<open>C6 on the two sample runs.\<close>

theorem command_line_of_fixture_witness:
  "NewTestVaultFromPath ''vault'' 1 sample_env = (Returned eager_fixture, sample_trace)
   \<and> Args (cmd eager_fixture) = [''vault'', ''server'', ''-dev'',
         ''-dev-listen-address=127.0.0.1:20108'', ''-dev-root-token-id=0e2fb3a4'']
   \<and> Stdout (cmd eager_fixture) = Some TestLog
   \<and> NewTestVaultDelayed sample_attempt
        = (Returned delayed_fixture, [MustTake 20113, Generate ''0e2fb3a4''])
   \<and> Args (cmd delayed_fixture) = [''vault'', ''server'', ''-dev'',
         ''-dev-listen-address=127.0.0.1:20113'', ''-dev-root-token-id=0e2fb3a4'']
   \<and> Stdout (cmd delayed_fixture) = Some OsStdout"
proof -
  note c = command_line_of_fixture[where binary = "''vault''" and mult = 1 and env = sample_env
      and tv = eager_fixture and evs = sample_trace and a = sample_attempt
      and tv' = delayed_fixture and evs' = "[MustTake 20113, Generate ''0e2fb3a4'']"]
  have t: "last (taken sample_trace) = 20108" "last (generated sample_trace) = ''0e2fb3a4''"
    by (simp_all add: sample_trace_def)
  have i: "itoa 20108 = ''20108''" "itoa 20113 = ''20113''"
    by (simp_all add: itoa_def digit_def)
  from c sample_run sample_run_delayed t i show ?thesis
    by (simp add: sample_attempt_def)
qed

subsection \<open>C7: the configuration and the client\<close>

text \<open>
  C7: a fixture returned by either constructor carries the configuration
  \<open>{Enabled: true, Token: RootToken, Addr: HTTPAddr}\<close> and a client whose address is
  \<open>HTTPAddr\<close> and whose token is \<open>RootToken\<close>; \<open>Addr\<close> and \<open>HTTPAddr\<close> are
  built from the port taken last and \<open>RootToken\<close> is the token generated last, those of
  the attempt that succeeded.
\<close>

theorem fixture_config_and_client:
  assumes "NewTestVaultFromPath binary mult env = (Returned tv, evs)
           \<or> NewTestVaultDelayed a = (Returned tv, evs)"
  shows "Config tv = \<lparr>Enabled = Some True, Token = RootToken tv, Addr = HTTPAddr tv\<rparr>
       \<and> Client tv = \<lparr>address = HTTPAddr tv, token = RootToken tv\<rparr>
       \<and> Addr tv = ''-dev-listen-address=127.0.0.1:'' @ itoa (last (taken evs))
       \<and> HTTPAddr tv = ''http://127.0.0.1:'' @ itoa (last (taken evs))
       \<and> RootToken tv = last (generated evs)"
  using assms
proof
  assume e: "NewTestVaultFromPath binary mult env = (Returned tv, evs)"
  show ?thesis
    by (subst (1 2 3 4 5 6 7 8 9) eager_fixture_shape[OF e]) (simp add: bind_arg_def http_addr_def)
next
  assume d: "NewTestVaultDelayed a = (Returned tv, evs)"
  from delayed_fixture_shape[OF d] show ?thesis
    by (simp add: bind_arg_def http_addr_def)
qed

text \<open>C7 on the two sample runs.\<close>

theorem fixture_config_and_client_witness:
  "NewTestVaultFromPath ''vault'' 1 sample_env = (Returned eager_fixture, sample_trace)
   \<and> Config eager_fixture
        = \<lparr>Enabled = Some True, Token = ''0e2fb3a4'', Addr = ''http://127.0.0.1:20108''\<rparr>
   \<and> Client eager_fixture = \<lparr>address = ''http://127.0.0.1:20108'', token = ''0e2fb3a4''\<rparr>
   \<and> NewTestVaultDelayed sample_attempt
        = (Returned delayed_fixture, [MustTake 20113, Generate ''0e2fb3a4''])
   \<and> Config delayed_fixture
        = \<lparr>Enabled = Some True, Token = ''0e2fb3a4'', Addr = ''http://127.0.0.1:20113''\<rparr>
   \<and> Client delayed_fixture = \<lparr>address = ''http://127.0.0.1:20113'', token = ''0e2fb3a4''\<rparr>"
proof -
  have h1: "NewTestVaultFromPath ''vault'' 1 sample_env = (Returned eager_fixture, sample_trace)
     \<or> NewTestVaultDelayed sample_attempt = (Returned eager_fixture, sample_trace)"
    using sample_run by simp
  have h2: "NewTestVaultFromPath ''vault'' 1 sample_env
        = (Returned delayed_fixture, [MustTake 20113, Generate ''0e2fb3a4''])
     \<or> NewTestVaultDelayed sample_attempt
        = (Returned delayed_fixture, [MustTake 20113, Generate ''0e2fb3a4''])"
    using sample_run_delayed by simp
  have t: "last (taken sample_trace) = 20108" "last (generated sample_trace) = ''0e2fb3a4''"
    by (simp_all add: sample_trace_def)
  have i: "itoa 20108 = ''20108''" "itoa 20113 = ''20113''"
    by (simp_all add: itoa_def digit_def)
  from fixture_config_and_client[OF h1] fixture_config_and_client[OF h2] t i
    sample_run sample_run_delayed
  show ?thesis by simp
qed

subsection \<open>C8: the iterations of the retry loop\<close>




subsection \<open>C9: the completion channel is written once\<close>

text \<open>
  C9: a watcher goroutine sends on the completion channel at most once: the result of
  \<open>cmd.Wait()\<close> when that call returns or, on the delayed path, the error of
  \<open>cmd.Start()\<close>; the send is the last thing it does. Each iteration of the constructor
  and each call of \<open>Start\<close> makes one channel and spawns one watcher for it, and the
  main task (the constructors, \<open>Start\<close>, \<open>Stop\<close>) never sends.
\<close>

theorem completion_signal_single_write:
  "sent (watcher_eager wait_res) = (case wait_res of None \<Rightarrow> [] | Some err \<Rightarrow> [err])
   \<and> sent (snd (watcher_delayed tv start_res wait_res))
        = (case start_res of
             Some e \<Rightarrow> [Some e]
           | None \<Rightarrow> (case wait_res of None \<Rightarrow> [] | Some err \<Rightarrow> [err]))
   \<and> length (sent (watcher_eager wait_res)) \<le> 1
   \<and> length (sent (snd (watcher_delayed tv start_res wait_res))) \<le> 1
   \<and> (case wait_res of
         None \<Rightarrow> True
       | Some err \<Rightarrow> last (watcher_eager wait_res) = ChanSend err
            \<and> sent (butlast (watcher_eager wait_res)) = [])
   \<and> (case sent (snd (watcher_delayed tv start_res wait_res)) of
         [] \<Rightarrow> True
       | v # vs \<Rightarrow> last (snd (watcher_delayed tv start_res wait_res)) = ChanSend v
            \<and> sent (butlast (snd (watcher_delayed tv start_res wait_res))) = [])
   \<and> count_list (snd (snd (attempt_body binary mult i a ps))) Go \<le> 1
   \<and> sent (snd (snd (attempt_body binary mult i a ps))) = []
   \<and> sent (snd (NewTestVaultFromPath binary mult env)) = []
   \<and> sent (snd (NewTestVaultDelayed a)) = []
   \<and> count_list (snd (snd (Start tv mult r polls))) Go = 1
   \<and> sent (snd (snd (Start tv mult r polls))) = []
   \<and> sent (Stop tv kill_err r') = []"
proof -
  obtain st ps' ev where b: "attempt_body binary mult i a ps = (st, ps', ev)"
    using prod_cases3 by blast
  have 1: "sent (watcher_eager wait_res) = (case wait_res of None \<Rightarrow> [] | Some err \<Rightarrow> [err])"
    by (simp add: watcher_eager_def split: option.splits)
  have 2: "sent (snd (watcher_delayed tv start_res wait_res))
        = (case start_res of
             Some e \<Rightarrow> [Some e]
           | None \<Rightarrow> (case wait_res of None \<Rightarrow> [] | Some err \<Rightarrow> [err]))"
    by (simp add: watcher_delayed_def Let_def split: option.splits)
  have 3: "length (sent (watcher_eager wait_res)) \<le> 1"
    "length (sent (snd (watcher_delayed tv start_res wait_res))) \<le> 1"
    by (simp_all add: 1 2 split: option.splits)
  have 4: "(case wait_res of
         None \<Rightarrow> True
       | Some err \<Rightarrow> last (watcher_eager wait_res) = ChanSend err
            \<and> sent (butlast (watcher_eager wait_res)) = [])"
    by (simp add: watcher_eager_def split: option.splits)
  have 5: "(case sent (snd (watcher_delayed tv start_res wait_res)) of
         [] \<Rightarrow> True
       | v # vs \<Rightarrow> last (snd (watcher_delayed tv start_res wait_res)) = ChanSend v
            \<and> sent (butlast (snd (watcher_delayed tv start_res wait_res))) = [])"
    by (simp add: watcher_delayed_def Let_def split: option.splits)
  have 6: "count_list (snd (snd (attempt_body binary mult i a ps))) Go \<le> 1"
    "sent (snd (snd (attempt_body binary mult i a ps))) = []"
    using attempt_body_one_watcher[OF b] attempt_body_trace[OF b] b by simp_all
  have 7: "sent (snd (NewTestVaultFromPath binary mult env)) = []"
    by (simp add: NewTestVaultFromPath_def retry_loop_sent)
  have 8: "sent (snd (NewTestVaultDelayed a)) = []"
    by (simp add: NewTestVaultDelayed_def Let_def split: option.splits)
  have 9: "count_list (snd (snd (Start tv mult r polls))) Go = 1"
    "sent (snd (snd (Start tv mult r polls))) = []"
    by (simp_all add: Start_def Let_def count_append count_list_polls sent_append polls_quiet
          split: race.splits prod.splits)
  have 10: "sent (Stop tv kill_err r') = []"
    by (simp add: Stop_def Stop_wait_def Let_def split: option.splits race.splits)
  from 1 2 3 4 5 6 7 8 9 10 show ?thesis by blast
qed

text \<open>C9 on watchers whose process exits, fails to start and gets killed.\<close>

theorem completion_signal_single_write_witness:
  "sent (watcher_eager (Some (Some (ErrMsg ''exit status 1'')))) = [Some (ErrMsg ''exit status 1'')]
   \<and> sent (snd (watcher_delayed delayed_fixture (Some (ErrMsg ''exec: not found'')) None))
        = [Some (ErrMsg ''exec: not found'')]
   \<and> sent (snd (watcher_delayed delayed_fixture None (Some None))) = [None]
   \<and> sent (snd (NewTestVaultFromPath ''vault'' 1 sample_env)) = []
   \<and> sent (Stop eager_fixture None (Received None)) = []"
  using completion_signal_single_write[where wait_res = "Some (Some (ErrMsg ''exit status 1''))"
      and binary = "''vault''" and mult = 1 and env = sample_env and tv = eager_fixture
      and kill_err = None and r' = "Received None"]
    completion_signal_single_write[where tv = delayed_fixture
      and start_res = "Some (ErrMsg ''exec: not found'')" and wait_res = None]
    completion_signal_single_write[where tv = delayed_fixture
      and start_res = None and wait_res = "Some None"]
  by simp

subsection \<open>C10: when Stop waits\<close>

text \<open>
  C10: \<open>Stop\<close> performs its select, with a timeout of one second, exactly when there is
  a process, the kill did not report that the process is already done, and the completion
  channel is not nil. It performs no other select. In every case it hands the recorded
  ports back once; when the kill reports an exited process, \<open>Stop\<close> is the kill
  followed by the release.
\<close>

theorem Stop_bounded_wait:
  "selected (Stop tv kill_err r) =
     (if Process (cmd tv) \<noteq> None \<and> waitCh tv \<noteq> None
         \<and> (case kill_err of None \<Rightarrow> True | Some err \<Rightarrow> \<not> errors_Is err ErrProcessDone)
      then [Second] else [])
   \<and> sint Second = 1000000000
   \<and> returns (Stop tv kill_err r) = [ports tv]
   \<and> ((\<exists>err. kill_err = Some err \<and> errors_Is err ErrProcessDone) \<and> Process (cmd tv) \<noteq> None
        \<longrightarrow> Stop tv kill_err r = [Kill, FreeportReturn (ports tv)])"
  by (auto simp: Stop_def Stop_wait_def Let_def Second_def split: option.splits race.splits)

text \<open>C10 on the sample fixtures, one instance for each way the wait is or is not reached.\<close>

theorem Stop_bounded_wait_witness:
  "selected (Stop eager_fixture (Some (ErrWrap ''kill'' ErrProcessDone)) TimedOut) = []
   \<and> Stop eager_fixture (Some (ErrWrap ''kill'' ErrProcessDone)) TimedOut
        = [Kill, FreeportReturn [20110, 20109, 20108]]
   \<and> selected (Stop eager_fixture None (Received None)) = [Second]
   \<and> selected (Stop eager_fixture (Some (ErrMsg ''operation not permitted'')) TimedOut) = [Second]
   \<and> selected (Stop (eager_fixture\<lparr>waitCh := None\<rparr>) None TimedOut) = []
   \<and> selected (Stop delayed_fixture None TimedOut) = []"
proof -
  have h: "Process (cmd eager_fixture) \<noteq> None" "waitCh eager_fixture \<noteq> None"
    "ports eager_fixture = [20110, 20109, 20108]"
    "Process (cmd delayed_fixture) = None"
    by (simp_all add: eager_fixture_def delayed_fixture_def)
  from Stop_bounded_wait[of eager_fixture "Some (ErrWrap ''kill'' ErrProcessDone)" TimedOut]
    Stop_bounded_wait[of eager_fixture None "Received None"]
    Stop_bounded_wait[of eager_fixture "Some (ErrMsg ''operation not permitted'')" TimedOut]
    Stop_bounded_wait[of "eager_fixture\<lparr>waitCh := None\<rparr>" None TimedOut]
    Stop_bounded_wait[of delayed_fixture None TimedOut] h
  show ?thesis by simp
qed

end
